theory Spec2Isabelle
  imports Main "HOL-Library.Log_Nat"
begin

section \<open>ShardedModelV2: a shallow embedding of sharded\_model\_v2.py\<close>

text \<open>
  The orchestrator object of \<^verbatim>\<open>colossalai/zero/sharded_model/sharded_model_v2.py\<close> is a
  record; every method takes the record and returns it updated. A method that can raise
  returns the raised error (or the returned value) together with the state reached at that
  point, so that what a failed call has already written stays visible.

  Tensors are values of an abstract type \<open>'t\<close>. The Torch operations the methods call are
  the fields of an environment record and are never given a meaning here. Streams, the
  logger, ranks and process-group handles carry no state of the methods below and are left
  out; a collective's result on this worker is one more function of the environment.
\<close>

subsection \<open>Errors\<close>

datatype error =
    AssertionError string
  | NotImplementedError
  | TypeError
  | AttributeError
  | ValueError
  | IndexError
  | ZeroDivisionError
  | OverflowError
  | RuntimeError string

subsection \<open>Python floats\<close>

text \<open>
  The divide factors are Python floats, that is IEEE binary64 values. A finite float is the
  rational number it denotes (the two zeros are one value: they compare equal); the
  infinities and the not-a-number value stand beside them.
\<close>

datatype py_float = Finite rat | PosInf | NegInf | NaN

definition round_half_even :: "rat \<Rightarrow> int" where
  "round_half_even r =
     (let f = \<lfloor>r\<rfloor>; d = r - of_int f
      in if d < 1 / 2 then f
         else if 1 / 2 < d then f + 1
         else if even f then f else f + 1)"

text \<open>The exponent \<open>e\<close> with \<open>2 ^ e \<le> x < 2 ^ (e + 1)\<close>, for \<open>x > 0\<close>.\<close>

definition exponent :: "rat \<Rightarrow> int" where
  "exponent x =
     (let (p, q) = quotient_of x;
          d = bitlen p - bitlen q
      in if power_int 2 d \<le> x then d else d - 1)"

text \<open>
  Rounding a rational to binary64, to nearest with ties to even. A normal result has a
  53-bit significand; below \<open>2 ^ -1022\<close> the spacing stays \<open>2 ^ -1074\<close> (subnormal results,
  down to zero); a result that rounds to \<open>2 ^ 1024\<close> or more in magnitude is an infinity.
  The test \<open>1024 \<le> exponent y\<close> says \<open>2 ^ 1024 \<le> y\<close>.
\<close>

definition round_binary64 :: "rat \<Rightarrow> py_float" where
  "round_binary64 x =
     (if x = 0 then Finite 0
      else let e = max (exponent \<bar>x\<bar>) (- 1022);
               u = power_int 2 (e - 52);
               y = of_int (round_half_even (\<bar>x\<bar> / u)) * u
           in if 0 < y \<and> 1024 \<le> exponent y then (if 0 < x then PosInf else NegInf)
              else Finite (sgn x * y))"

text \<open>
  Python's \<^verbatim>\<open>a / b\<close> on floats: a zero divisor raises whatever the dividend is, and an
  overflowing quotient is an infinity, not an error.
\<close>

fun float_div :: "py_float \<Rightarrow> py_float \<Rightarrow> error + py_float" where
  "float_div a (Finite b) =
     (if b = 0 then Inl ZeroDivisionError
      else (case a of
              Finite x \<Rightarrow> Inr (round_binary64 (x / b))
            | PosInf \<Rightarrow> Inr (if 0 < b then PosInf else NegInf)
            | NegInf \<Rightarrow> Inr (if 0 < b then NegInf else PosInf)
            | NaN \<Rightarrow> Inr NaN))"
| "float_div (Finite x) PosInf = Inr (Finite 0)"
| "float_div (Finite x) NegInf = Inr (Finite 0)"
| "float_div a b = Inr NaN"

text \<open>Python's \<^verbatim>\<open>a * b\<close> on floats.\<close>

fun float_mul :: "py_float \<Rightarrow> py_float \<Rightarrow> py_float" where
  "float_mul (Finite a) (Finite b) = round_binary64 (a * b)"
| "float_mul (Finite a) PosInf = (if a = 0 then NaN else if 0 < a then PosInf else NegInf)"
| "float_mul (Finite a) NegInf = (if a = 0 then NaN else if 0 < a then NegInf else PosInf)"
| "float_mul PosInf (Finite b) = (if b = 0 then NaN else if 0 < b then PosInf else NegInf)"
| "float_mul NegInf (Finite b) = (if b = 0 then NaN else if 0 < b then NegInf else PosInf)"
| "float_mul PosInf PosInf = PosInf"
| "float_mul PosInf NegInf = NegInf"
| "float_mul NegInf PosInf = NegInf"
| "float_mul NegInf NegInf = PosInf"
| "float_mul a b = NaN"

text \<open>Python's \<^verbatim>\<open>a < b\<close> on floats: false whenever an operand is not a number.\<close>

fun float_less :: "py_float \<Rightarrow> py_float \<Rightarrow> bool" where
  "float_less (Finite a) (Finite b) = (a < b)"
| "float_less (Finite a) PosInf = True"
| "float_less NegInf (Finite b) = True"
| "float_less NegInf PosInf = True"
| "float_less a b = False"

text \<open>
  The conversion of a Python integer to a float, as a division by a float performs it: an
  integer too large for a float raises.
\<close>

definition float_of_nat :: "nat \<Rightarrow> error + py_float" where
  "float_of_nat n =
     (case round_binary64 (of_nat n) of
        PosInf \<Rightarrow> Inl OverflowError
      | f \<Rightarrow> Inr f)"

subsection \<open>Per-parameter bookkeeping\<close>

text \<open>\<^verbatim>\<open>ShardedTensor\<close>: the locally resident payload and the flag saying it is one shard.\<close>

record 't sharded_tensor =
  payload :: 't
  is_sharded :: bool

text \<open>\<^verbatim>\<open>param.col_attr\<close>, the record \<^verbatim>\<open>ZeroInitContext\<close> hangs on every parameter.\<close>

record 't col_attr =
  sharded_data_tensor :: "'t sharded_tensor"
  fp16_grad :: "'t option"
  fp32_grad :: "'t option"
  offload_grad :: bool
  bwd_count :: int

text \<open>
  A parameter as the constructor receives it: \<^verbatim>\<open>hasattr(param, 'col_attr')\<close> may be false.
  \<open>raw_grad\<close> is \<^verbatim>\<open>p.grad\<close> (\<open>None\<close> when the parameter has no gradient tensor yet), and
  \<open>raw_data\<close> is \<^verbatim>\<open>p.data\<close>.
\<close>

record 't raw_parameter =
  raw_col_attr :: "'t col_attr option"
  raw_requires_grad :: bool
  raw_data :: 't
  raw_grad :: "'t option"

text \<open>
  A parameter of a constructed orchestrator. The constructor has asserted the presence of
  \<^verbatim>\<open>col_attr\<close> on every parameter, and no method below removes it, so the methods read it
  without a check, as the source does.
\<close>

record 't parameter =
  col_attr :: "'t col_attr"
  requires_grad :: bool
  data :: 't
  grad :: "'t option"

definition param_is_sharded :: "'t parameter \<Rightarrow> bool" where
  "param_is_sharded p = is_sharded (sharded_data_tensor (col_attr p))"

subsection \<open>Collaborators\<close>

text \<open>
  The shard strategy is an argument of the constructor (\<^verbatim>\<open>shard_strategy: BaseShardStrategy\<close>).
  \<^verbatim>\<open>shard(tensors, group)\<close> and \<^verbatim>\<open>gather(tensors, group)\<close> update each tensor of the list in
  place; the two fields give what they do to one tensor.
\<close>

record 't shard_strategy =
  shard :: "'t sharded_tensor \<Rightarrow> 't sharded_tensor"
  gather :: "'t sharded_tensor \<Rightarrow> 't sharded_tensor"

text \<open>
  The Torch operations, the collective and the wrapped module's own \<^verbatim>\<open>state_dict\<close>.
  \<^item> \<open>float32 t\<close>: \<^verbatim>\<open>t.float()\<close> when \<open>t\<close> is half precision, \<open>t\<close> itself otherwise;
  \<^item> \<open>cpu t\<close>: \<^verbatim>\<open>t.data.cpu()\<close>;
  \<^item> \<open>add_inplace a b\<close>: the value of \<open>a\<close> after \<^verbatim>\<open>a.add_(b.view_as(a))\<close>;
  \<^item> \<open>to_dtype_of g d\<close>: \<^verbatim>\<open>g.data.to(dtype)\<close> for the dtype of the tensor \<open>d\<close>;
  \<^item> \<open>div_inplace g f\<close>: the value of \<open>g\<close> after \<^verbatim>\<open>g.data.div_(f)\<close>;
  \<^item> \<open>chunk_and_pad g n\<close>: the \<open>n\<close> chunks handed to the reduce-scatter;
  \<^item> \<open>view_flat g\<close>: \<^verbatim>\<open>g.view(-1)\<close>;
  \<^item> \<open>empty_like g\<close>: \<^verbatim>\<open>torch.empty_like(g)\<close> after \<^verbatim>\<open>free_storage\<close>;
  \<^item> \<open>reduce_scatter chunks\<close>: the reduced chunk the collective returns to this worker;
  \<^item> \<open>module_state_dict ps\<close>: \<^verbatim>\<open>self.module.state_dict(...)\<close> over the parameters' current
    data, which may raise;
  \<^item> \<open>colo_cuda_memory_capacity\<close>: the device capacity in bytes.
\<close>

record ('t, 'd) env =
  float32 :: "'t \<Rightarrow> 't"
  cpu :: "'t \<Rightarrow> 't"
  add_inplace :: "'t \<Rightarrow> 't \<Rightarrow> 't"
  to_dtype_of :: "'t \<Rightarrow> 't \<Rightarrow> 't"
  div_inplace :: "'t \<Rightarrow> py_float \<Rightarrow> 't"
  chunk_and_pad :: "'t \<Rightarrow> nat \<Rightarrow> 't list"
  view_flat :: "'t \<Rightarrow> 't"
  empty_like :: "'t \<Rightarrow> 't"
  reduce_scatter :: "'t list \<Rightarrow> 't"
  module_state_dict :: "'t parameter list \<Rightarrow> error + 'd"
  colo_cuda_memory_capacity :: int

text \<open>
  Modelled from the spec: \<^verbatim>\<open>cast_tensor_to_fp32\<close> lives in \<^verbatim>\<open>_utils.py\<close>, which is not among
  the sources. The spec calls its result "an upcast-to-full-precision copy of fp16Grad".
  Without a gradient there is no tensor to upcast, and a tensor function applied to
  \<^verbatim>\<open>None\<close> raises.
\<close>

definition cast_tensor_to_fp32 :: "('t, 'd) env \<Rightarrow> 't option \<Rightarrow> error + 't" where
  "cast_tensor_to_fp32 E t =
     (case t of None \<Rightarrow> Inl TypeError | Some x \<Rightarrow> Inr (float32 E x))"

subsection \<open>The memory statistics collector\<close>

text \<open>
  Modelled from the spec: \<^verbatim>\<open>MemStatsCollector\<close> is not among the sources. Section 4.3 of the
  spec: \<^verbatim>\<open>startCollection\<close> and \<^verbatim>\<open>finishCollection\<close> bracket the sampling window, a sample is
  recorded once per micro-step during the sampling iteration, and the tracker retains
  \<^verbatim>\<open>overallUsage\<close>, the ordered total-usage samples of the window. \<open>sample_memstats\<close> is the
  sampling event, fired by the operation hooks; outside the window it records nothing and
  only advances the sampling counter.
\<close>

record mem_stats_collector =
  start_flag :: bool
  overall_cuda :: "int list"
  sampling_cnter :: nat

definition new_collector :: mem_stats_collector where
  "new_collector = \<lparr>start_flag = False, overall_cuda = [], sampling_cnter = 0\<rparr>"

definition start_collection :: "mem_stats_collector \<Rightarrow> mem_stats_collector" where
  "start_collection c = c\<lparr>start_flag := True\<rparr>"

definition finish_collection :: "mem_stats_collector \<Rightarrow> mem_stats_collector" where
  "finish_collection c = c\<lparr>start_flag := False\<rparr>"

definition reset_sampling_cnter :: "mem_stats_collector \<Rightarrow> mem_stats_collector" where
  "reset_sampling_cnter c = c\<lparr>sampling_cnter := 0\<rparr>"

definition sample_memstats :: "int \<Rightarrow> mem_stats_collector \<Rightarrow> mem_stats_collector" where
  "sample_memstats used c =
     (if start_flag c
      then c\<lparr>overall_cuda := overall_cuda c @ [used], sampling_cnter := Suc (sampling_cnter c)\<rparr>
      else c\<lparr>sampling_cnter := Suc (sampling_cnter c)\<rparr>)"

text \<open>Python's \<^verbatim>\<open>max\<close> of a list: \<^verbatim>\<open>ValueError\<close> on the empty list.\<close>

definition py_max :: "int list \<Rightarrow> error + int" where
  "py_max xs = (case xs of [] \<Rightarrow> Inl ValueError | x # ys \<Rightarrow> Inr (fold max ys x))"

subsection \<open>The reduce-scatter bucketer\<close>

text \<open>
  Modelled from the spec: \<^verbatim>\<open>ReduceScatterBucketer\<close> is not among the sources. Section 4.2 of
  the spec: \<^verbatim>\<open>reduceScatterAsync\<close> queues a chunk set with its completion callback,
  \<^verbatim>\<open>flush\<close> issues the collective for everything queued and invokes the callbacks in the
  order they were queued, \<^verbatim>\<open>free\<close> releases the buffers. The model keeps the queue: an entry
  is the index of the parameter its callback is bound to, and the chunk set. The early flush
  of a bucket that is full is left out: every queued entry stays queued until \<open>flush\<close>.
\<close>

type_synonym 't reducer = "(nat \<times> 't list) list"

definition reduce_scatter_async :: "'t list \<Rightarrow> nat \<Rightarrow> 't reducer \<Rightarrow> 't reducer" where
  "reduce_scatter_async chunks i r = r @ [(i, chunks)]"

subsection \<open>The orchestrator\<close>

text \<open>
  \<open>params\<close> is \<^verbatim>\<open>self.module.parameters()\<close> in its fixed order; \<open>module_list\<close> holds the
  sub-modules when \<^verbatim>\<open>self.module\<close> is an \<^verbatim>\<open>nn.ModuleList\<close> and is \<open>None\<close> otherwise.
  \<open>reduce_scatter_group_size\<close> is \<^verbatim>\<open>self.reduce_scatter_process_group.size()\<close>.
\<close>

record ('t, 'm) sharded_model =
  params :: "'t parameter list"
  module_list :: "'m list option"
  shard_param :: bool
  world_size :: nat
  reduce_scatter_group_size :: nat
  strategy :: "'t shard_strategy"
  memstats_collector :: "mem_stats_collector option"
  iter_cnter :: nat
  fp32_reduce_scatter :: bool
  cpu_offload :: bool
  gradient_predivide_factor :: py_float
  gradient_postdivide_factor :: py_float
  reducer :: "'t reducer"
  require_backward_grad_sync :: bool
  cuda_margin_space :: int
  reuse_fp16_shard :: bool

subsection \<open>The divide factors\<close>

text \<open>
  Lines 110 to 113 of the constructor. The helper \<^verbatim>\<open>get_gradient_predivide_factor\<close> lives in
  \<^verbatim>\<open>_utils.py\<close>, which is not among the sources: it is the parameter \<open>derive\<close>. The
  division converts the integer world size to a float first.
\<close>

definition divide_factors ::
  "(nat \<Rightarrow> py_float) \<Rightarrow> nat \<Rightarrow> py_float option \<Rightarrow> error + py_float \<times> py_float" where
  "divide_factors derive n supplied =
     (let pre = (case supplied of Some f \<Rightarrow> f | None \<Rightarrow> derive n)
      in case float_of_nat n of
           Inl e \<Rightarrow> Inl e
         | Inr w \<Rightarrow>
             (case float_div w pre of
                Inl e \<Rightarrow> Inl e
              | Inr post \<Rightarrow> Inr (pre, post)))"

text \<open>
  Modelled from the spec: \<^verbatim>\<open>get_gradient_predivide_factor\<close> is not among the sources. The
  spec: "when unset, choose the largest factor \<le> \<surd>(worker-count) that evenly divides
  worker-count, defaulting to 1 if none exists". The factor is returned as a float.
\<close>

definition get_gradient_predivide_factor :: "nat \<Rightarrow> py_float" where
  "get_gradient_predivide_factor n =
     (case filter (\<lambda>d. d dvd n \<and> d * d \<le> n) (rev [1..<Suc n]) of
        [] \<Rightarrow> Finite 1
      | d # _ \<Rightarrow> round_binary64 (of_nat d))"

subsection \<open>Construction\<close>

text \<open>
  Lines 68 to 75: every parameter must carry \<^verbatim>\<open>col_attr\<close>, and the parameters must be all
  sharded or all unsharded. The loop stops at the first parameter without the record.
\<close>

fun check_params :: "'t raw_parameter list \<Rightarrow> error + 't parameter list" where
  "check_params [] = Inr []"
| "check_params (p # ps) =
     (case raw_col_attr p of
        None \<Rightarrow>
          Inl (AssertionError ''You must use ZeroInitContext to init your module first.'')
      | Some c \<Rightarrow>
          (case check_params ps of
             Inl e \<Rightarrow> Inl e
           | Inr qs \<Rightarrow>
               Inr (\<lparr>col_attr = c, requires_grad = raw_requires_grad p,
                     data = raw_data p, grad = raw_grad p\<rparr> # qs)))"

text \<open>
  \<^verbatim>\<open>offload_config.get('device', None) == 'cpu' if offload_config else False\<close>; an empty
  dictionary is false in Python, and has no \<^verbatim>\<open>'device'\<close> key either.
\<close>

definition offload_to_cpu :: "(string \<rightharpoonup> string) option \<Rightarrow> bool" where
  "offload_to_cpu offload_config =
     (case offload_config of None \<Rightarrow> False | Some m \<Rightarrow> m ''device'' = Some ''cpu'')"

definition set_offload_grad :: "bool \<Rightarrow> 't parameter \<Rightarrow> 't parameter" where
  "set_offload_grad b p = p\<lparr>col_attr := (col_attr p)\<lparr>offload_grad := b\<rparr>\<rparr>"

text \<open>
  \<^verbatim>\<open>__init__\<close>. \<open>n\<close> is \<^verbatim>\<open>dist.get_world_size(self.process_group)\<close> and \<open>rs_size\<close> the size of
  the reduce-scatter group; \<open>raw\<close> and \<open>subs\<close> describe the wrapped module.
\<close>

definition init ::
  "(nat \<Rightarrow> py_float) \<Rightarrow> 't raw_parameter list \<Rightarrow> 'm list option \<Rightarrow> 't shard_strategy \<Rightarrow> nat \<Rightarrow> nat \<Rightarrow>
   bool \<Rightarrow> (string \<rightharpoonup> string) option \<Rightarrow> py_float option \<Rightarrow> bool \<Rightarrow> bool \<Rightarrow>
   error + ('t, 'm) sharded_model" where
  "init derive raw subs strat n rs_size fp32_rs offload_config predivide use_memory_tracer reuse =
     (case check_params raw of
        Inl e \<Rightarrow> Inl e
      | Inr ps \<Rightarrow>
          if \<not> (list_all param_is_sharded ps \<or> list_all (\<lambda>p. \<not> param_is_sharded p) ps)
          then Inl (AssertionError
            ''Parameters must be all sharded or all unsharded! Parameters are partially sharded now.'')
          else
            (case divide_factors derive n predivide of
               Inl e \<Rightarrow> Inl e
             | Inr (pre, post) \<Rightarrow>
                 Inr \<lparr>params = map (set_offload_grad (offload_to_cpu offload_config)) ps,
                      module_list = subs,
                      shard_param = list_all param_is_sharded ps,
                      world_size = n,
                      reduce_scatter_group_size = rs_size,
                      strategy = strat,
                      memstats_collector =
                        (if use_memory_tracer then Some new_collector else None),
                      iter_cnter = 0,
                      fp32_reduce_scatter = fp32_rs,
                      cpu_offload = offload_to_cpu offload_config,
                      gradient_predivide_factor = pre,
                      gradient_postdivide_factor = post,
                      reducer = [],
                      require_backward_grad_sync = True,
                      cuda_margin_space = 0,
                      reuse_fp16_shard = reuse\<rparr>))"

subsection \<open>Forward\<close>

text \<open>
  \<^verbatim>\<open>forward\<close> opens the sampling window on iteration 0 when a collector exists. What the
  wrapped module computes from the cast arguments is no state of the orchestrator.
\<close>

definition forward :: "('t, 'm) sharded_model \<Rightarrow> ('t, 'm) sharded_model" where
  "forward s =
     (if iter_cnter s = 0
      then (case memstats_collector s of
              None \<Rightarrow> s
            | Some c \<Rightarrow> s\<lparr>memstats_collector := Some (start_collection c)\<rparr>)
      else s)"

text \<open>A sampling event of the operation hooks, fired while the module computes.\<close>

definition sample :: "int \<Rightarrow> ('t, 'm) sharded_model \<Rightarrow> ('t, 'm) sharded_model" where
  "sample used s =
     (case memstats_collector s of
        None \<Rightarrow> s
      | Some c \<Rightarrow> s\<lparr>memstats_collector := Some (sample_memstats used c)\<rparr>)"

subsection \<open>The end of a backward pass\<close>

text \<open>
  \<^verbatim>\<open>_update_memstats\<close>. \<^verbatim>\<open>max\<close> raises on an empty sample list, after the window has been
  closed and the sampling counter reset, and before the iteration counter advances.
\<close>

definition update_memstats ::
  "('t, 'd) env \<Rightarrow> ('t, 'm) sharded_model \<Rightarrow> error option \<times> ('t, 'm) sharded_model" where
  "update_memstats E s =
     (let s1 = (if iter_cnter s = 0
                then (case memstats_collector s of
                        None \<Rightarrow> s
                      | Some c \<Rightarrow> s\<lparr>memstats_collector := Some (finish_collection c)\<rparr>)
                else s)
      in case memstats_collector s1 of
           None \<Rightarrow> (None, s1\<lparr>iter_cnter := iter_cnter s1 + 1\<rparr>)
         | Some c \<Rightarrow>
             (let s2 = s1\<lparr>memstats_collector := Some (reset_sampling_cnter c)\<rparr>
              in case py_max (overall_cuda c) of
                   Inl e \<Rightarrow> (Some e, s2)
                 | Inr peak \<Rightarrow>
                     (None, s2\<lparr>cuda_margin_space := colo_cuda_memory_capacity E - peak,
                               iter_cnter := iter_cnter s2 + 1\<rparr>)))"

text \<open>
  \<^verbatim>\<open>_reduce_scatter_callback\<close>, on the parameter itself: the reduced gradient becomes the
  shard's payload in reuse mode, and \<^verbatim>\<open>fp16_grad\<close> otherwise.
\<close>

definition store_reduced :: "bool \<Rightarrow> 't \<Rightarrow> 't parameter \<Rightarrow> 't parameter" where
  "store_reduced reuse g p =
     (if reuse
      then p\<lparr>col_attr := (col_attr p)\<lparr>sharded_data_tensor :=
             (sharded_data_tensor (col_attr p))\<lparr>payload := g, is_sharded := True\<rparr>\<rparr>\<rparr>
      else p\<lparr>col_attr := (col_attr p)\<lparr>fp16_grad := Some g\<rparr>\<rparr>)"

definition reduce_scatter_callback ::
  "('t, 'd) env \<Rightarrow> nat \<Rightarrow> 't \<Rightarrow> ('t, 'm) sharded_model \<Rightarrow> ('t, 'm) sharded_model" where
  "reduce_scatter_callback E i reduced_grad s =
     (let r = view_flat E reduced_grad;
          r' = (if float_less (Finite 1) (gradient_postdivide_factor s)
                then div_inplace E r (gradient_postdivide_factor s) else r)
      in if i < length (params s)
         then s\<lparr>params := (params s)[i := store_reduced (reuse_fp16_shard s) r' (params s ! i)]\<rparr>
         else s)"

text \<open>\<^verbatim>\<open>self.reducer.flush()\<close>: the callbacks run in the order of the queue.\<close>

definition flush :: "('t, 'd) env \<Rightarrow> ('t, 'm) sharded_model \<Rightarrow> ('t, 'm) sharded_model" where
  "flush E s =
     (fold (\<lambda>(i, chunks). reduce_scatter_callback E i (reduce_scatter E chunks)) (reducer s) s)
       \<lparr>reducer := []\<rparr>"

text \<open>\<^verbatim>\<open>self.reducer.free()\<close> releases buffers; the queue is not touched.\<close>

definition free :: "('t, 'm) sharded_model \<Rightarrow> ('t, 'm) sharded_model" where
  "free s = s"

text \<open>Lines 182 to 187: the parameters found unsharded are handed to the strategy.\<close>

definition shard_tensor_of :: "'t shard_strategy \<Rightarrow> 't parameter \<Rightarrow> 't parameter" where
  "shard_tensor_of strat p =
     p\<lparr>col_attr := (col_attr p)\<lparr>sharded_data_tensor :=
        shard strat (sharded_data_tensor (col_attr p))\<rparr>\<rparr>"

definition gather_tensor_of :: "'t shard_strategy \<Rightarrow> 't parameter \<Rightarrow> 't parameter" where
  "gather_tensor_of strat p =
     p\<lparr>col_attr := (col_attr p)\<lparr>sharded_data_tensor :=
        gather strat (sharded_data_tensor (col_attr p))\<rparr>\<rparr>"

definition reshard_unsharded :: "('t, 'm) sharded_model \<Rightarrow> ('t, 'm) sharded_model" where
  "reshard_unsharded s =
     (if shard_param s
      then s\<lparr>params := map (\<lambda>p. if \<not> param_is_sharded p then shard_tensor_of (strategy s) p
                                 else p) (params s)\<rparr>
      else s)"

text \<open>
  A loop over the parameters whose body may raise: the parameters after the one that raised
  are left as they were.
\<close>

fun for_each :: "('a \<Rightarrow> error option \<times> 'a) \<Rightarrow> 'a list \<Rightarrow> error option \<times> 'a list" where
  "for_each f [] = (None, [])"
| "for_each f (p # ps) =
     (case f p of
        (Some e, p') \<Rightarrow> (Some e, p' # ps)
      | (None, p') \<Rightarrow> (case for_each f ps of (r, ps') \<Rightarrow> (r, p' # ps')))"

text \<open>
  \<^verbatim>\<open>p.grad.data = grad_payload\<close> and the two clears, lines 215 to 217. The assignment raises
  when \<^verbatim>\<open>p.grad\<close> is \<^verbatim>\<open>None\<close>.
\<close>

definition write_back :: "'t \<Rightarrow> 't parameter \<Rightarrow> error option \<times> 't parameter" where
  "write_back g p =
     (case grad p of
        None \<Rightarrow> (Some AttributeError, p)
      | Some _ \<Rightarrow>
          (None, p\<lparr>grad := Some g,
                   col_attr := (col_attr p)\<lparr>fp16_grad := None, fp32_grad := None\<rparr>\<rparr>))"

text \<open>
  The body of the loop of lines 188 to 217, for one parameter. In reuse mode
  \<^verbatim>\<open>grad_payload\<close> is the shard's payload tensor itself, so moving its data to the host
  moves the payload; \<^verbatim>\<open>add_\<close> updates the accumulator in place.
\<close>

definition publish ::
  "('t, 'd) env \<Rightarrow> bool \<Rightarrow> bool \<Rightarrow> 't parameter \<Rightarrow> error option \<times> 't parameter" where
  "publish E sync reuse p =
     (let p0 = p\<lparr>col_attr := (col_attr p)\<lparr>bwd_count := 0\<rparr>\<rparr>
      in if \<not> requires_grad p0 then (None, p0)
         else if \<not> sync then (None, p0)
         else
           (case (if reuse then Inr (payload (sharded_data_tensor (col_attr p0)))
                  else cast_tensor_to_fp32 E (fp16_grad (col_attr p0))) of
              Inl e \<Rightarrow> (Some e, p0)
            | Inr g \<Rightarrow>
                (let g1 = (if offload_grad (col_attr p0) then cpu E g else g);
                     p1 = (if reuse
                           then p0\<lparr>col_attr := (col_attr p0)\<lparr>sharded_data_tensor :=
                                  (sharded_data_tensor (col_attr p0))\<lparr>payload := g1\<rparr>\<rparr>\<rparr>
                           else p0)
                 in case fp32_grad (col_attr p1) of
                      None \<Rightarrow> write_back g1 p1
                    | Some acc \<Rightarrow>
                        if reuse
                        then (Some (AssertionError
                          ''Gradien accumulation is not supported when reuse_fp16_shard=True''), p1)
                        else
                          (let acc' = add_inplace E acc g1
                           in write_back acc'
                                (p1\<lparr>col_attr := (col_attr p1)\<lparr>fp32_grad := Some acc'\<rparr>\<rparr>)))))"

text \<open>\<^verbatim>\<open>_post_backward_operations\<close>.\<close>

definition before_publish :: "('t, 'd) env \<Rightarrow> ('t, 'm) sharded_model \<Rightarrow> ('t, 'm) sharded_model" where
  "before_publish E s =
     reshard_unsharded (free (if require_backward_grad_sync s then flush E s else s))"

definition post_backward_operations ::
  "('t, 'd) env \<Rightarrow> ('t, 'm) sharded_model \<Rightarrow> error option \<times> ('t, 'm) sharded_model" where
  "post_backward_operations E s =
     (case update_memstats E s of
        (Some e, s1) \<Rightarrow> (Some e, s1)
      | (None, s1) \<Rightarrow>
          (let s2 = before_publish E s1
           in case for_each (publish E (require_backward_grad_sync s2) (reuse_fp16_shard s2))
                     (params s2) of
                (r, ps) \<Rightarrow> (r, s2\<lparr>params := ps\<rparr>)))"

subsection \<open>The gradient-completion hook\<close>

text \<open>
  \<^verbatim>\<open>_grad_post_backward_hook(param, grad)\<close>. The parameter is its index in \<open>params\<close>; the
  gradient is \<open>None\<close> or a tensor with its \<^verbatim>\<open>requires_grad\<close> flag. The result is the value
  handed back to autograd.
\<close>

definition grad_post_backward_hook ::
  "('t, 'd) env \<Rightarrow> nat \<Rightarrow> ('t \<times> bool) option \<Rightarrow> ('t, 'm) sharded_model \<Rightarrow>
   (error + 't option) \<times> ('t, 'm) sharded_model" where
  "grad_post_backward_hook E i g s =
     (case g of
        None \<Rightarrow> (Inr None, s)
      | Some (gr, gr_requires_grad) \<Rightarrow>
          if gr_requires_grad
          then (Inl (AssertionError
            ''ShardedModel only works with gradients that don't require gradients''), s)
          else if \<not> require_backward_grad_sync s then (Inr None, s)
          else
            (let g1 = (if fp32_reduce_scatter s \<and> i < length (params s)
                       then to_dtype_of E gr (data (params s ! i)) else gr);
                 g2 = (if float_less (Finite 1) (gradient_predivide_factor s)
                       then div_inplace E g1 (gradient_predivide_factor s) else g1);
                 s' = (if 1 < world_size s
                       then s\<lparr>reducer := reduce_scatter_async
                              (chunk_and_pad E g2 (reduce_scatter_group_size s)) i (reducer s)\<rparr>
                       else reduce_scatter_callback E i g2 s)
             in (Inr (Some (empty_like E gr)), s')))"

subsection \<open>State dictionaries and the sequence interface\<close>

text \<open>
  \<^verbatim>\<open>state_dict\<close>: no statement of the method catches an exception, so an error of the wrapped
  module's \<^verbatim>\<open>state_dict\<close> leaves the method at that line.
\<close>

definition state_dict ::
  "('t, 'd) env \<Rightarrow> ('t, 'm) sharded_model \<Rightarrow> (error + 'd) \<times> ('t, 'm) sharded_model" where
  "state_dict E s =
     (let ps1 = map (gather_tensor_of (strategy s)) (params s);
          prev_params = map data ps1;
          ps2 = map (\<lambda>p. p\<lparr>data := payload (sharded_data_tensor (col_attr p))\<rparr>) ps1
      in case module_state_dict E ps2 of
           Inl e \<Rightarrow> (Inl e, s\<lparr>params := ps2\<rparr>)
         | Inr gathered_state_dict \<Rightarrow>
             (let ps3 = map (shard_tensor_of (strategy s)) ps2;
                  ps4 = map (\<lambda>(p, d). p\<lparr>data := d\<rparr>) (zip ps3 prev_params)
              in (Inr gathered_state_dict, s\<lparr>params := ps4\<rparr>)))"

definition load_state_dict ::
  "'d \<Rightarrow> bool \<Rightarrow> ('t, 'm) sharded_model \<Rightarrow> (error + unit) \<times> ('t, 'm) sharded_model" where
  "load_state_dict sd strict s = (Inl NotImplementedError, s)"

text \<open>
  \<^verbatim>\<open>nn.ModuleList\<close> indexes as a Python list does: a negative index counts from the end, and
  an index out of range raises.
\<close>

definition module_list_getitem :: "'m list \<Rightarrow> int \<Rightarrow> error + 'm" where
  "module_list_getitem ms idx =
     (let n = int (length ms); j = (if idx < 0 then idx + n else idx)
      in if 0 \<le> j \<and> j < n then Inr (ms ! nat j) else Inl IndexError)"

definition getitem :: "('t, 'm) sharded_model \<Rightarrow> int \<Rightarrow> error + 'm" where
  "getitem s idx =
     (case module_list s of
        None \<Rightarrow> Inl (AssertionError [])
      | Some ms \<Rightarrow> module_list_getitem ms idx)"

definition len :: "('t, 'm) sharded_model \<Rightarrow> error + nat" where
  "len s =
     (case module_list s of
        None \<Rightarrow> Inl (AssertionError [])
      | Some ms \<Rightarrow> Inr (length ms))"

text \<open>\<^verbatim>\<open>__iter__\<close>: the iterator is the sequence of sub-modules it will yield.\<close>

definition iter :: "('t, 'm) sharded_model \<Rightarrow> error + 'm list" where
  "iter s =
     (case module_list s of
        None \<Rightarrow> Inl (AssertionError [])
      | Some ms \<Rightarrow> Inr ms)"

section \<open>Predicates and runs the properties are stated with\<close>

text \<open>
  A module is partially sharded when one parameter's record says sharded and another's says
  unsharded.
\<close>

definition partially_sharded :: "'t raw_parameter list \<Rightarrow> bool" where
  "partially_sharded raw =
     (\<exists>p \<in> set raw. \<exists>q \<in> set raw. \<exists>c d. raw_col_attr p = Some c \<and> raw_col_attr q = Some d \<and>
        is_sharded (sharded_data_tensor c) \<and> \<not> is_sharded (sharded_data_tensor d))"

text \<open>
  A run of further training passes: each pass is a forward call, the sampling events the hooks
  fire during the forward and the backward computation (one reading each), and the end of
  the backward pass. The state is followed through a pass that raises as well.
\<close>

definition run_passes ::
  "('t, 'd) env \<Rightarrow> int list list \<Rightarrow> ('t, 'm) sharded_model \<Rightarrow> ('t, 'm) sharded_model" where
  "run_passes E readings s =
     fold (\<lambda>rs s'. snd (post_backward_operations E (fold sample rs (forward s')))) readings s"

text \<open>
  The sampling window is over: the iteration counter has left 0, the collector is not
  recording, and it holds the samples of the window.
\<close>

definition window_closed :: "int list \<Rightarrow> int \<Rightarrow> ('t, 'm) sharded_model \<Rightarrow> bool" where
  "window_closed samples margin s =
     (0 < iter_cnter s \<and> cuda_margin_space s = margin \<and>
      (case memstats_collector s of
         None \<Rightarrow> False
       | Some c \<Rightarrow> \<not> start_flag c \<and> overall_cuda c = samples))"

section \<open>Concrete inputs\<close>

text \<open>
  Tensors as lists of rationals on one worker, a strategy that keeps the first element as
  the shard, and an orchestrator over one trainable parameter.
\<close>

definition example_env :: "(rat list, unit) env" where
  "example_env =
     \<lparr>float32 = (\<lambda>t. t), cpu = (\<lambda>t. t), add_inplace = (\<lambda>a b. map (\<lambda>(x, y). x + y) (zip a b)),
      to_dtype_of = (\<lambda>g d. g), div_inplace = (\<lambda>g f. case f of Finite r \<Rightarrow> map (\<lambda>x. x / r) g | _ \<Rightarrow> g),
      chunk_and_pad = (\<lambda>g n. replicate n g), view_flat = (\<lambda>t. t), empty_like = (\<lambda>t. []),
      reduce_scatter = concat, module_state_dict = (\<lambda>ps. Inr ()),
      colo_cuda_memory_capacity = 1000\<rparr>"

definition example_strategy :: "rat list shard_strategy" where
  "example_strategy =
     \<lparr>shard = (\<lambda>t. if is_sharded t then t
                    else t\<lparr>payload := take 1 (payload t), is_sharded := True\<rparr>),
      gather = (\<lambda>t. if is_sharded t then t\<lparr>payload := payload t @ [0], is_sharded := False\<rparr>
                     else t)\<rparr>"

definition example_attr :: "rat list col_attr" where
  "example_attr =
     \<lparr>sharded_data_tensor = \<lparr>payload = [1], is_sharded = True\<rparr>,
      fp16_grad = Some [2], fp32_grad = None, offload_grad = False, bwd_count = 1\<rparr>"

definition example_param :: "rat list parameter" where
  "example_param = \<lparr>col_attr = example_attr, requires_grad = True, data = [1], grad = Some []\<rparr>"

definition example_model :: "(rat list, nat) sharded_model" where
  "example_model =
     \<lparr>params = [example_param], module_list = None, shard_param = True, world_size = 1,
      reduce_scatter_group_size = 1, strategy = example_strategy,
      memstats_collector = None, iter_cnter = 0, fp32_reduce_scatter = False,
      cpu_offload = False, gradient_predivide_factor = Finite 1,
      gradient_postdivide_factor = Finite 1,
      reducer = [], require_backward_grad_sync = True, cuda_margin_space = 0,
      reuse_fp16_shard = False\<rparr>"

definition example_raw :: "rat list col_attr option \<Rightarrow> rat list raw_parameter" where
  "example_raw c = \<lparr>raw_col_attr = c, raw_requires_grad = True, raw_data = [1], raw_grad = None\<rparr>"

definition unsharded_attr :: "rat list col_attr" where
  "unsharded_attr =
     example_attr\<lparr>sharded_data_tensor := \<lparr>payload = [1, 0], is_sharded = False\<rparr>\<rparr>"

text \<open>
  The example orchestrator with a full-precision accumulator on its parameter, and the same
  in reuse mode.
\<close>

definition accumulating_model :: "(rat list, nat) sharded_model" where
  "accumulating_model =
     example_model\<lparr>params := [example_param\<lparr>col_attr := example_attr\<lparr>fp32_grad := Some [5]\<rparr>\<rparr>]\<rparr>"

definition reuse_accumulating_model :: "(rat list, nat) sharded_model" where
  "reuse_accumulating_model = accumulating_model\<lparr>reuse_fp16_shard := True\<rparr>"

text \<open>The example orchestrator in reuse mode.\<close>

definition reuse_model :: "(rat list, nat) sharded_model" where
  "reuse_model = example_model\<lparr>reuse_fp16_shard := True\<rparr>"

text \<open>The example environment with a wrapped module whose \<^verbatim>\<open>state_dict\<close> raises.\<close>

definition failing_export_env :: "(rat list, unit) env" where
  "failing_export_env =
     example_env\<lparr>module_state_dict := (\<lambda>ps. Inl (RuntimeError ''state_dict hook failed''))\<rparr>"


section \<open>What the end of a backward pass reads and writes\<close>

text \<open>
  The callbacks of a queue, on the parameter list: what \<open>flush\<close> does to \<open>params\<close>.
\<close>

definition run_callback ::
  "('t, 'd) env \<Rightarrow> bool \<Rightarrow> py_float \<Rightarrow> nat \<times> 't list \<Rightarrow> 't parameter list \<Rightarrow>
   't parameter list" where
  "run_callback E reuse post entry ps =
     (case entry of
        (i, chunks) \<Rightarrow>
          if i < length ps
          then ps[i := store_reduced reuse
                 (if float_less (Finite 1) post
                  then div_inplace E (view_flat E (reduce_scatter E chunks)) post
                  else view_flat E (reduce_scatter E chunks)) (ps ! i)]
          else ps)"

definition run_callbacks ::
  "('t, 'd) env \<Rightarrow> bool \<Rightarrow> py_float \<Rightarrow> 't reducer \<Rightarrow> 't parameter list \<Rightarrow>
   't parameter list" where
  "run_callbacks E reuse post q ps = fold (run_callback E reuse post) q ps"

text \<open>
  The parameters as the publishing loop of lines 188 to 217 finds them: after the flush of a
  synchronized pass and after the unsharded ones have been handed to the strategy.
\<close>

definition prepared_params :: "('t, 'd) env \<Rightarrow> ('t, 'm) sharded_model \<Rightarrow> 't parameter list" where
  "prepared_params E s =
     (let ps = (if require_backward_grad_sync s
                then run_callbacks E (reuse_fp16_shard s) (gradient_postdivide_factor s)
                       (reducer s) (params s)
                else params s)
      in if shard_param s
         then map (\<lambda>p. if \<not> param_is_sharded p then shard_tensor_of (strategy s) p else p) ps
         else ps)"


text \<open>
  The authoritative gradient payload of a parameter, in the words of the spec: the reused
  sharded payload in reuse mode, otherwise the full-precision upcast of \<^verbatim>\<open>fp16_grad\<close>, added
  into the full-precision accumulator when there is one; relocated to host memory first
  when the parameter offloads its gradient.
\<close>

definition authoritative_gradient :: "('t, 'd) env \<Rightarrow> bool \<Rightarrow> 't parameter \<Rightarrow> 't option" where
  "authoritative_gradient E reuse p =
     (let host = (\<lambda>t. if offload_grad (col_attr p) then cpu E t else t)
      in if reuse then Some (host (payload (sharded_data_tensor (col_attr p))))
         else (case fp16_grad (col_attr p) of
                 None \<Rightarrow> None
               | Some h \<Rightarrow>
                   (case fp32_grad (col_attr p) of
                      None \<Rightarrow> Some (host (float32 E h))
                    | Some acc \<Rightarrow> Some (add_inplace E acc (host (float32 E h))))))"

text \<open>
  A trainable parameter is ready to be published when it has a gradient tensor to write to,
  and holds no accumulator in reuse mode, and holds a reduced gradient otherwise.
\<close>

definition ready_to_publish :: "bool \<Rightarrow> 't parameter \<Rightarrow> bool" where
  "ready_to_publish reuse p =
     (requires_grad p \<longrightarrow>
        grad p \<noteq> None \<and>
        (if reuse then fp32_grad (col_attr p) = None else fp16_grad (col_attr p) \<noteq> None))"

section \<open>Properties\<close>

subsection \<open>State-dict loading\<close>

text \<open>
  C8: for every state dictionary and either value of \<open>strict\<close>, \<^verbatim>\<open>load_state_dict\<close> raises
  \<^verbatim>\<open>NotImplementedError\<close>, and the orchestrator (sharding state and parameter data included)
  is after the call what it was before.
\<close>

theorem load_state_dict_unsupported:
  "fst (load_state_dict sd strict s) = Inl NotImplementedError \<and>
   snd (load_state_dict sd strict s) = s"
  by (simp add: load_state_dict_def)

subsection \<open>The sequence interface\<close>

text \<open>
  C10: when the wrapped module is not an \<^verbatim>\<open>nn.ModuleList\<close>, each of \<^verbatim>\<open>__getitem__\<close>,
  \<^verbatim>\<open>__len__\<close> and \<^verbatim>\<open>__iter__\<close> fails with an assertion error; when it is one, each returns
  what the module list itself returns.
\<close>

theorem sequence_interface_guarded:
  "(module_list s = None \<longrightarrow>
      getitem s idx = Inl (AssertionError []) \<and> len s = Inl (AssertionError []) \<and>
      iter s = Inl (AssertionError [])) \<and>
   (\<forall>ms. module_list s = Some ms \<longrightarrow>
      getitem s idx = module_list_getitem ms idx \<and> len s = Inr (length ms) \<and> iter s = Inr ms)"
  by (simp add: getitem_def len_def iter_def)

theorem sequence_interface_guarded_witness:
  "getitem example_model 0 = Inl (AssertionError []) \<and>
   len example_model = Inl (AssertionError []) \<and>
   iter example_model = Inl (AssertionError []) \<and>
   getitem (example_model\<lparr>module_list := Some [7, 8, 9]\<rparr>) (- 1) = Inr 9 \<and>
   len (example_model\<lparr>module_list := Some [7, 8, 9]\<rparr>) = Inr 3 \<and>
   iter (example_model\<lparr>module_list := Some [7, 8, 9]\<rparr>) = Inr [7, 8, 9]"
  using sequence_interface_guarded [of example_model 0]
    sequence_interface_guarded [of "example_model\<lparr>module_list := Some [7, 8, 9]\<rparr>" "- 1"]
  by (simp add: example_model_def module_list_getitem_def)

subsection \<open>Construction\<close>

lemma check_params_missing:
  "p \<in> set raw \<Longrightarrow> raw_col_attr p = None \<Longrightarrow>
   check_params raw =
     Inl (AssertionError ''You must use ZeroInitContext to init your module first.'')"
  by (induction raw) (auto split: option.splits sum.splits)

lemma check_params_present:
  "\<forall>p \<in> set raw. raw_col_attr p \<noteq> None \<Longrightarrow>
   check_params raw =
     Inr (map (\<lambda>p. \<lparr>col_attr = the (raw_col_attr p), requires_grad = raw_requires_grad p,
                     data = raw_data p, grad = raw_grad p\<rparr>) raw)"
  by (induction raw) (auto split: option.splits sum.splits)

text \<open>
  C6: constructing the orchestrator over a module in which some parameter has no
  \<^verbatim>\<open>col_attr\<close> record, or in which one parameter is sharded and another is not, fails with
  an assertion error; no orchestrator exists on which a forward call could run.
\<close>

theorem init_rejects_bad_module:
  assumes "(\<exists>p \<in> set raw. raw_col_attr p = None) \<or> partially_sharded raw"
  shows "\<exists>msg. init derive raw subs strat n rs_size fp32_rs offload_config predivide
           use_memory_tracer reuse = Inl (AssertionError msg)"
proof (cases "\<exists>p \<in> set raw. raw_col_attr p = None")
  case True
  then obtain p where "p \<in> set raw" "raw_col_attr p = None" by blast
  then show ?thesis by (simp add: init_def check_params_missing)
next
  case False
  then have present: "\<forall>p \<in> set raw. raw_col_attr p \<noteq> None" by auto
  from False assms have "partially_sharded raw" by blast
  then obtain p q c d where pq: "p \<in> set raw" "q \<in> set raw" "raw_col_attr p = Some c"
    "raw_col_attr q = Some d" "is_sharded (sharded_data_tensor c)"
    "\<not> is_sharded (sharded_data_tensor d)"
    unfolding partially_sharded_def by blast
  let ?ps = "map (\<lambda>p. \<lparr>col_attr = the (raw_col_attr p), requires_grad = raw_requires_grad p,
                     data = raw_data p, grad = raw_grad p\<rparr>) raw"
  from pq have "\<not> list_all param_is_sharded ?ps"
    by (force simp: list_all_iff param_is_sharded_def)
  moreover from pq have "\<not> list_all (\<lambda>p. \<not> param_is_sharded p) ?ps"
    by (force simp: list_all_iff param_is_sharded_def)
  ultimately show ?thesis
    by (simp add: init_def check_params_present [OF present])
qed

theorem init_rejects_bad_module_witness:
  "partially_sharded [example_raw (Some example_attr), example_raw (Some unsharded_attr)] \<and>
   (\<exists>msg. init get_gradient_predivide_factor
      [example_raw (Some example_attr), example_raw (Some unsharded_attr)]
      (None :: nat list option) example_strategy 2 2 False None (Some (Finite 1)) False False =
      Inl (AssertionError msg)) \<and>
   raw_col_attr (example_raw None) = None \<and>
   (\<exists>msg. init get_gradient_predivide_factor [example_raw (Some example_attr), example_raw None]
      (None :: nat list option) example_strategy 2 2 False None (Some (Finite 1)) False False =
      Inl (AssertionError msg))"
proof -
  have mixed: "partially_sharded [example_raw (Some example_attr), example_raw (Some unsharded_attr)]"
    by (simp add: partially_sharded_def example_raw_def example_attr_def unsharded_attr_def)
  have missing: "\<exists>p \<in> set [example_raw (Some example_attr), example_raw None].
      raw_col_attr p = None"
    by (simp add: example_raw_def)
  show ?thesis
    using mixed missing
      init_rejects_bad_module [of "[example_raw (Some example_attr), example_raw (Some unsharded_attr)]"
        get_gradient_predivide_factor "None :: nat list option" example_strategy 2 2 False None
        "Some (Finite 1)" False False]
      init_rejects_bad_module [of "[example_raw (Some example_attr), example_raw None]"
        get_gradient_predivide_factor "None :: nat list option" example_strategy 2 2 False None
        "Some (Finite 1)" False False]
    by (simp add: example_raw_def)
qed

subsection \<open>The gradient-completion hook without synchronization\<close>

text \<open>
  C3, as the claim states it, fails: with synchronization disabled, a gradient that itself
  requires a gradient makes the hook raise the assertion error of line 242, which stands
  before the test of the synchronization flag; the hook does not return.
\<close>

theorem hook_without_sync_raises:
  "fst (grad_post_backward_hook example_env 0 (Some ([1], True))
          (example_model\<lparr>require_backward_grad_sync := False\<rparr>)) \<noteq> Inr None"
  by (simp add: grad_post_backward_hook_def)

text \<open>
  C3, amended: whenever the hook fires while synchronization is disabled, the orchestrator
  is left as it was: nothing is queued at the bucketer and no parameter's record is changed.
  The hook returns \<^verbatim>\<open>None\<close> at once, unless the gradient requires a gradient, in which case
  it raises the assertion error.
\<close>

theorem hook_without_sync:
  assumes "\<not> require_backward_grad_sync s"
  shows "snd (grad_post_backward_hook E i g s) = s \<and>
         fst (grad_post_backward_hook E i g s) =
           (case g of
              Some (gr, True) \<Rightarrow> Inl (AssertionError
                ''ShardedModel only works with gradients that don't require gradients'')
            | _ \<Rightarrow> Inr None)"
  using assms
  by (simp add: grad_post_backward_hook_def split: option.splits prod.splits bool.splits)

theorem hook_without_sync_witness:
  "\<not> require_backward_grad_sync (example_model\<lparr>require_backward_grad_sync := False\<rparr>) \<and>
   grad_post_backward_hook example_env 0 (Some ([1], False))
     (example_model\<lparr>require_backward_grad_sync := False\<rparr>) =
   (Inr None, example_model\<lparr>require_backward_grad_sync := False\<rparr>)"
  using hook_without_sync [of "example_model\<lparr>require_backward_grad_sync := False\<rparr>"
      example_env 0 "Some ([1], False)"]
  by (simp add: prod_eq_iff)

subsection \<open>The margin space\<close>

lemma callbacks_frame:
  "memstats_collector
     (fold (\<lambda>(i, chunks). reduce_scatter_callback E i (reduce_scatter E chunks)) q s) =
     memstats_collector s \<and>
   iter_cnter (fold (\<lambda>(i, chunks). reduce_scatter_callback E i (reduce_scatter E chunks)) q s) =
     iter_cnter s \<and>
   cuda_margin_space
     (fold (\<lambda>(i, chunks). reduce_scatter_callback E i (reduce_scatter E chunks)) q s) =
     cuda_margin_space s"
  by (induction q arbitrary: s) (auto simp: reduce_scatter_callback_def Let_def)

lemma before_publish_memstats:
  "memstats_collector (before_publish E s) = memstats_collector s \<and>
   iter_cnter (before_publish E s) = iter_cnter s \<and>
   cuda_margin_space (before_publish E s) = cuda_margin_space s"
  by (simp add: before_publish_def reshard_unsharded_def free_def flush_def callbacks_frame)

lemma post_backward_memstats:
  "memstats_collector (snd (post_backward_operations E s)) =
     memstats_collector (snd (update_memstats E s)) \<and>
   iter_cnter (snd (post_backward_operations E s)) = iter_cnter (snd (update_memstats E s)) \<and>
   cuda_margin_space (snd (post_backward_operations E s)) =
     cuda_margin_space (snd (update_memstats E s))"
  by (simp add: post_backward_operations_def Let_def before_publish_memstats
      split: prod.splits option.splits)

lemma py_max_Max:
  assumes "xs \<noteq> []"
  shows "py_max xs = Inr (Max (set xs))"
proof (cases xs)
  case Nil
  with assms show ?thesis by simp
next
  case (Cons x ys)
  then show ?thesis using Max.set_eq_fold [of x ys] by (simp add: py_max_def)
qed

lemma window_closed_first:
  assumes "memstats_collector s = Some c" "iter_cnter s = 0" "overall_cuda c \<noteq> []"
  shows "window_closed (overall_cuda c)
           (colo_cuda_memory_capacity E - Max (set (overall_cuda c))) (snd (update_memstats E s))"
  using assms
  by (simp add: update_memstats_def window_closed_def Let_def py_max_Max finish_collection_def
      reset_sampling_cnter_def)

lemma window_closed_later:
  assumes "window_closed samples (colo_cuda_memory_capacity E - Max (set samples)) s"
    and "samples \<noteq> []"
  shows "window_closed samples (colo_cuda_memory_capacity E - Max (set samples))
           (snd (update_memstats E (fold sample rs (forward s))))"
proof -
  have fwd: "window_closed samples (colo_cuda_memory_capacity E - Max (set samples)) (forward s)"
    using assms(1) by (simp add: forward_def window_closed_def)
  have smp: "window_closed samples m t \<Longrightarrow> window_closed samples m (fold sample rs t)" for m t
  proof (induction rs arbitrary: t)
    case Nil
    then show ?case by simp
  next
    case (Cons r rs)
    from Cons.prems have "window_closed samples m (sample r t)"
      by (auto simp: sample_def sample_memstats_def window_closed_def split: option.splits)
    from Cons.IH [OF this] show ?case by simp
  qed
  have "window_closed samples (colo_cuda_memory_capacity E - Max (set samples)) t \<Longrightarrow>
        window_closed samples (colo_cuda_memory_capacity E - Max (set samples))
          (snd (update_memstats E t))" for t
    using assms(2)
    by (auto simp: update_memstats_def window_closed_def Let_def py_max_Max
        reset_sampling_cnter_def split: option.splits)
  with fwd smp show ?thesis by blast
qed

lemma window_closed_post_backward:
  "window_closed samples m (snd (post_backward_operations E s)) =
   window_closed samples m (snd (update_memstats E s))"
  by (simp add: window_closed_def post_backward_memstats)

lemma window_closed_run_passes:
  assumes "samples \<noteq> []"
  shows "window_closed samples (colo_cuda_memory_capacity E - Max (set samples)) s \<Longrightarrow>
         window_closed samples (colo_cuda_memory_capacity E - Max (set samples))
           (run_passes E readings s)"
proof (induction readings arbitrary: s)
  case Nil
  then show ?case by (simp add: run_passes_def)
next
  case (Cons rs readings)
  have "window_closed samples (colo_cuda_memory_capacity E - Max (set samples))
          (snd (post_backward_operations E (fold sample rs (forward s))))"
    using window_closed_later [OF Cons.prems assms] by (simp add: window_closed_post_backward)
  from Cons.IH [OF this] show ?case by (simp add: run_passes_def)
qed

text \<open>
  C4: when the backward pass of the sampling iteration (iteration 0) ends with a collector
  holding a non-empty list of samples, the margin space is the device capacity minus the
  largest sample; and after any number of further passes, whatever the hooks sample during
  them, the margin space is still that value.
\<close>

theorem margin_space_after_sampling:
  assumes "memstats_collector s = Some c" and "iter_cnter s = 0" and "overall_cuda c \<noteq> []"
  shows "cuda_margin_space (snd (post_backward_operations E s)) =
           colo_cuda_memory_capacity E - Max (set (overall_cuda c)) \<and>
         (\<forall>readings.
            cuda_margin_space (run_passes E readings (snd (post_backward_operations E s))) =
            colo_cuda_memory_capacity E - Max (set (overall_cuda c)))"
proof -
  have first: "window_closed (overall_cuda c)
      (colo_cuda_memory_capacity E - Max (set (overall_cuda c)))
      (snd (post_backward_operations E s))"
    using window_closed_first [OF assms] by (simp add: window_closed_post_backward)
  then have "\<And>readings. window_closed (overall_cuda c)
      (colo_cuda_memory_capacity E - Max (set (overall_cuda c)))
      (run_passes E readings (snd (post_backward_operations E s)))"
    using window_closed_run_passes [OF assms(3)] by blast
  with first show ?thesis by (simp add: window_closed_def)
qed

theorem margin_space_after_sampling_witness:
  "cuda_margin_space (snd (post_backward_operations example_env
     (example_model\<lparr>memstats_collector :=
        Some \<lparr>start_flag = True, overall_cuda = [300, 700, 500], sampling_cnter = 3\<rparr>\<rparr>))) = 300 \<and>
   cuda_margin_space (run_passes example_env [[900, 950], [990]]
     (snd (post_backward_operations example_env
       (example_model\<lparr>memstats_collector :=
          Some \<lparr>start_flag = True, overall_cuda = [300, 700, 500], sampling_cnter = 3\<rparr>\<rparr>)))) = 300"
  using margin_space_after_sampling [of
      "example_model\<lparr>memstats_collector :=
         Some \<lparr>start_flag = True, overall_cuda = [300, 700, 500], sampling_cnter = 3\<rparr>\<rparr>"
      "\<lparr>start_flag = True, overall_cuda = [300, 700, 500], sampling_cnter = 3\<rparr>" example_env]
  by (simp add: example_model_def example_env_def)

subsection \<open>The end of a backward pass\<close>

lemmas example_defs =
  example_model_def example_param_def example_attr_def example_env_def example_strategy_def
  accumulating_model_def reuse_accumulating_model_def

lemmas method_defs =
  post_backward_operations_def update_memstats_def before_publish_def flush_def free_def
  reshard_unsharded_def publish_def write_back_def cast_tensor_to_fp32_def param_is_sharded_def
  shard_tensor_of_def

lemma update_memstats_frame:
  "params (snd (update_memstats E s)) = params s \<and>
   reducer (snd (update_memstats E s)) = reducer s \<and>
   require_backward_grad_sync (snd (update_memstats E s)) = require_backward_grad_sync s \<and>
   reuse_fp16_shard (snd (update_memstats E s)) = reuse_fp16_shard s \<and>
   shard_param (snd (update_memstats E s)) = shard_param s \<and>
   strategy (snd (update_memstats E s)) = strategy s \<and>
   gradient_postdivide_factor (snd (update_memstats E s)) = gradient_postdivide_factor s"
  by (simp add: update_memstats_def Let_def split: option.splits sum.splits)

lemma callback_params:
  "(case entry of (i, chunks) \<Rightarrow> reduce_scatter_callback E i (reduce_scatter E chunks)) s =
   s\<lparr>params := run_callback E (reuse_fp16_shard s) (gradient_postdivide_factor s) entry (params s)\<rparr>"
  by (cases entry) (simp add: run_callback_def reduce_scatter_callback_def Let_def)

lemma callbacks_params:
  "fold (\<lambda>(i, chunks). reduce_scatter_callback E i (reduce_scatter E chunks)) q s =
   s\<lparr>params := run_callbacks E (reuse_fp16_shard s) (gradient_postdivide_factor s) q (params s)\<rparr>"
proof (induction q arbitrary: s)
  case Nil
  then show ?case by (simp add: run_callbacks_def)
next
  case (Cons x q)
  let ?f = "\<lambda>(i, chunks). reduce_scatter_callback E i (reduce_scatter E chunks)"
  let ?P = "run_callback E (reuse_fp16_shard s) (gradient_postdivide_factor s) x (params s)"
  have "fold ?f (x # q) s = fold ?f q (?f x s)" by simp
  also have "?f x s = s\<lparr>params := ?P\<rparr>" by (rule callback_params)
  also have "fold ?f q (s\<lparr>params := ?P\<rparr>) =
      s\<lparr>params := run_callbacks E (reuse_fp16_shard s) (gradient_postdivide_factor s) q ?P\<rparr>"
    using Cons.IH [of "s\<lparr>params := ?P\<rparr>"] by simp
  finally show ?case by (simp add: run_callbacks_def)
qed

lemma before_publish_eq:
  "before_publish E s =
   s\<lparr>params := prepared_params E s,
     reducer := (if require_backward_grad_sync s then [] else reducer s)\<rparr>"
  by (simp add: before_publish_def reshard_unsharded_def free_def flush_def callbacks_params
      prepared_params_def Let_def)

lemma prepared_params_update_memstats:
  "prepared_params E (snd (update_memstats E s)) = prepared_params E s"
  by (simp add: prepared_params_def update_memstats_frame cong: if_cong)

lemma for_each_all_ok:
  "\<forall>p \<in> set ps. fst (f p) = None \<Longrightarrow> for_each f ps = (None, map (\<lambda>p. snd (f p)) ps)"
  by (induction ps) (auto split: prod.splits option.splits)

lemma post_backward_ok:
  assumes "fst (update_memstats E s) = None"
  shows "post_backward_operations E s =
     (case for_each (publish E (require_backward_grad_sync s) (reuse_fp16_shard s))
             (prepared_params E s) of
        (r, ps) \<Rightarrow> (r, (snd (update_memstats E s))
            \<lparr>params := ps,
              reducer := (if require_backward_grad_sync s then [] else reducer s)\<rparr>))"
proof -
  obtain s1 where um: "update_memstats E s = (None, s1)"
    using assms by (cases "update_memstats E s") auto
  have fr: "require_backward_grad_sync s1 = require_backward_grad_sync s"
    "reuse_fp16_shard s1 = reuse_fp16_shard s" "reducer s1 = reducer s"
    using update_memstats_frame [of E s] um by simp_all
  have pp: "prepared_params E s1 = prepared_params E s"
    using prepared_params_update_memstats [of E s] um by simp
  show ?thesis
    by (simp add: post_backward_operations_def um Let_def before_publish_eq pp fr
        split: prod.splits)
qed

lemma publish_ready:
  assumes "ready_to_publish reuse p"
  shows "fst (publish E True reuse p) = None \<and>
         bwd_count (col_attr (snd (publish E True reuse p))) = 0 \<and>
         (requires_grad p \<longrightarrow>
            grad (snd (publish E True reuse p)) = authoritative_gradient E reuse p \<and>
            grad (snd (publish E True reuse p)) \<noteq> None \<and>
            fp16_grad (col_attr (snd (publish E True reuse p))) = None \<and>
            fp32_grad (col_attr (snd (publish E True reuse p))) = None)"
  using assms
  by (auto simp: ready_to_publish_def publish_def authoritative_gradient_def write_back_def
      cast_tensor_to_fp32_def Let_def split: option.splits)

text \<open>
  C1, as the claim states it, fails: in reuse mode, a trainable parameter that holds a
  full-precision accumulator stops the reconciliation at the assertion of line 212. Its
  visible gradient is not the reused payload, and neither internal buffer is cleared.
\<close>

theorem reuse_with_accumulator_not_published:
  "fst (post_backward_operations example_env reuse_accumulating_model) =
     Some (AssertionError ''Gradien accumulation is not supported when reuse_fp16_shard=True'') \<and>
   requires_grad (params reuse_accumulating_model ! 0) \<and>
   grad (params (snd (post_backward_operations example_env reuse_accumulating_model)) ! 0) = Some [] \<and>
   fp16_grad (col_attr
     (params (snd (post_backward_operations example_env reuse_accumulating_model)) ! 0)) = Some [2] \<and>
   fp32_grad (col_attr
     (params (snd (post_backward_operations example_env reuse_accumulating_model)) ! 0)) = Some [5]"
  by (simp add: example_defs method_defs Let_def)

text \<open>
  C1, amended: at the end of a backward pass with synchronization enabled, when the memory
  statistics do not raise and every trainable parameter is ready to be published (it has a
  gradient tensor, it holds no full-precision accumulator in reuse mode, and it holds a
  reduced \<^verbatim>\<open>fp16_grad\<close> outside reuse mode), the reconciliation completes without an error;
  every parameter's backward counter is zero; and every trainable parameter's visible
  gradient is its authoritative payload, with \<^verbatim>\<open>fp16_grad\<close> and \<^verbatim>\<open>fp32_grad\<close> both cleared.
\<close>

theorem reconciliation_publishes:
  assumes "require_backward_grad_sync s"
    and "fst (update_memstats E s) = None"
    and "\<forall>p \<in> set (prepared_params E s). ready_to_publish (reuse_fp16_shard s) p"
  shows "fst (post_backward_operations E s) = None \<and>
         length (params (snd (post_backward_operations E s))) = length (prepared_params E s) \<and>
         (\<forall>i < length (prepared_params E s).
            bwd_count (col_attr (params (snd (post_backward_operations E s)) ! i)) = 0 \<and>
            (requires_grad (prepared_params E s ! i) \<longrightarrow>
               grad (params (snd (post_backward_operations E s)) ! i) =
                 authoritative_gradient E (reuse_fp16_shard s) (prepared_params E s ! i) \<and>
               grad (params (snd (post_backward_operations E s)) ! i) \<noteq> None \<and>
               fp16_grad (col_attr (params (snd (post_backward_operations E s)) ! i)) = None \<and>
               fp32_grad (col_attr (params (snd (post_backward_operations E s)) ! i)) = None))"
proof -
  let ?f = "publish E True (reuse_fp16_shard s)"
  have ok: "\<forall>p \<in> set (prepared_params E s). fst (?f p) = None"
    using assms(3) publish_ready by blast
  have eq: "post_backward_operations E s =
      (None, (snd (update_memstats E s))\<lparr>params := map (\<lambda>p. snd (?f p)) (prepared_params E s),
         reducer := []\<rparr>)"
    using assms(1) by (simp add: post_backward_ok [OF assms(2)] for_each_all_ok [OF ok])
  have each: "\<And>i. i < length (prepared_params E s) \<Longrightarrow>
      ready_to_publish (reuse_fp16_shard s) (prepared_params E s ! i)"
    using assms(3) by simp
  have all: "\<forall>i < length (prepared_params E s).
      bwd_count (col_attr (params (snd (post_backward_operations E s)) ! i)) = 0 \<and>
      (requires_grad (prepared_params E s ! i) \<longrightarrow>
         grad (params (snd (post_backward_operations E s)) ! i) =
           authoritative_gradient E (reuse_fp16_shard s) (prepared_params E s ! i) \<and>
         grad (params (snd (post_backward_operations E s)) ! i) \<noteq> None \<and>
         fp16_grad (col_attr (params (snd (post_backward_operations E s)) ! i)) = None \<and>
         fp32_grad (col_attr (params (snd (post_backward_operations E s)) ! i)) = None)"
  proof (rule allI, rule impI)
    fix i assume i: "i < length (prepared_params E s)"
    have "params (snd (post_backward_operations E s)) ! i = snd (?f (prepared_params E s ! i))"
      using i by (simp add: eq)
    with publish_ready [OF each [OF i], of E]
    show "bwd_count (col_attr (params (snd (post_backward_operations E s)) ! i)) = 0 \<and>
      (requires_grad (prepared_params E s ! i) \<longrightarrow>
         grad (params (snd (post_backward_operations E s)) ! i) =
           authoritative_gradient E (reuse_fp16_shard s) (prepared_params E s ! i) \<and>
         grad (params (snd (post_backward_operations E s)) ! i) \<noteq> None \<and>
         fp16_grad (col_attr (params (snd (post_backward_operations E s)) ! i)) = None \<and>
         fp32_grad (col_attr (params (snd (post_backward_operations E s)) ! i)) = None)"
      by metis
  qed
  have "fst (post_backward_operations E s) = None"
    and "length (params (snd (post_backward_operations E s))) = length (prepared_params E s)"
    by (simp_all add: eq)
  with all show ?thesis by blast
qed

theorem reconciliation_publishes_witness:
  "fst (post_backward_operations example_env accumulating_model) = None \<and>
   grad (params (snd (post_backward_operations example_env accumulating_model)) ! 0) = Some [7] \<and>
   fp16_grad (col_attr
     (params (snd (post_backward_operations example_env accumulating_model)) ! 0)) = None \<and>
   fp32_grad (col_attr
     (params (snd (post_backward_operations example_env accumulating_model)) ! 0)) = None \<and>
   bwd_count (col_attr
     (params (snd (post_backward_operations example_env accumulating_model)) ! 0)) = 0"
proof -
  have pp: "prepared_params example_env accumulating_model =
      [example_param\<lparr>col_attr := example_attr\<lparr>fp32_grad := Some [5]\<rparr>\<rparr>]"
    by (simp add: prepared_params_def run_callbacks_def example_defs param_is_sharded_def)
  have sync: "require_backward_grad_sync accumulating_model"
    by (simp add: example_defs)
  have mem: "fst (update_memstats example_env accumulating_model) = None"
    by (simp add: example_defs update_memstats_def)
  have ready: "\<forall>p \<in> set (prepared_params example_env accumulating_model).
      ready_to_publish (reuse_fp16_shard accumulating_model) p"
    unfolding pp by (simp add: ready_to_publish_def example_defs)
  have auth: "authoritative_gradient example_env (reuse_fp16_shard accumulating_model)
      (prepared_params example_env accumulating_model ! 0) = Some [7]"
    unfolding pp by (simp add: authoritative_gradient_def example_defs)
  from reconciliation_publishes [OF sync mem ready] auth show ?thesis
    by (simp add: pp example_param_def)
qed

subsection \<open>Reuse mode excludes gradient accumulation\<close>


lemma post_backward_ok_params:
  assumes "fst (update_memstats E s) = None"
  shows "params (snd (post_backward_operations E s)) =
     snd (for_each (publish E (require_backward_grad_sync s) (reuse_fp16_shard s))
            (prepared_params E s))"
  by (simp add: post_backward_ok [OF assms] case_prod_beta)














subsection \<open>Running the reconciliation twice\<close>

lemma publish_twice_grad:
  assumes "\<forall>t. cpu E (cpu E t) = cpu E t"
  shows "grad (snd (publish E sync reuse (snd (publish E sync reuse p)))) =
         grad (snd (publish E sync reuse p))"
  using assms
  by (auto simp: publish_def write_back_def cast_tensor_to_fp32_def Let_def
      split: option.splits)

lemma publish_failure_persists:
  assumes "fst (publish E sync reuse p) \<noteq> None"
  shows "fst (publish E sync reuse (snd (publish E sync reuse p))) \<noteq> None"
  using assms
  by (auto simp: publish_def write_back_def cast_tensor_to_fp32_def Let_def
      split: option.splits if_splits)

lemma publish_is_sharded:
  "param_is_sharded (snd (publish E sync reuse p)) = param_is_sharded p"
  by (auto simp: publish_def write_back_def cast_tensor_to_fp32_def Let_def param_is_sharded_def
      split: option.splits)


lemma for_each_twice_grad:
  assumes "\<forall>t. cpu E (cpu E t) = cpu E t"
  shows "map grad (snd (for_each (publish E sync reuse) (snd (for_each (publish E sync reuse) ps)))) =
         map grad (snd (for_each (publish E sync reuse) ps))"
proof (induction ps)
  case Nil
  then show ?case by simp
next
  case (Cons p ps)
  let ?F = "publish E sync reuse"
  obtain r p' where Fp: "?F p = (r, p')" by (cases "?F p")
  obtain r' p'' where Fp': "?F p' = (r', p'')" by (cases "?F p'")
  have g: "grad p'' = grad p'"
    using publish_twice_grad [OF assms, of sync reuse p] by (simp add: Fp Fp')
  show ?case
  proof (cases r)
    case (Some e)
    then have "r' \<noteq> None"
      using publish_failure_persists [of E sync reuse p] by (simp add: Fp Fp')
    then obtain e' where "r' = Some e'" by auto
    with Some g show ?thesis by (simp add: Fp Fp')
  next
    case None
    obtain q ps1 where rest: "for_each ?F ps = (q, ps1)" by (cases "for_each ?F ps")
    obtain q' ps2 where rest': "for_each ?F ps1 = (q', ps2)" by (cases "for_each ?F ps1")
    from Cons.IH have ih: "map grad ps2 = map grad ps1" by (simp add: rest rest')
    show ?thesis
      using None g ih by (cases r') (simp_all add: Fp Fp' rest rest')
  qed
qed

lemma for_each_is_sharded:
  "map param_is_sharded (snd (for_each (publish E sync reuse) ps)) = map param_is_sharded ps"
proof (induction ps)
  case Nil
  then show ?case by simp
next
  case (Cons p ps)
  obtain r p' where Fp: "publish E sync reuse p = (r, p')" by (cases "publish E sync reuse p")
  have "param_is_sharded p' = param_is_sharded p"
    using publish_is_sharded [of E sync reuse p] by (simp add: Fp)
  with Cons.IH show ?case
    by (cases r; cases "for_each (publish E sync reuse) ps") (simp_all add: Fp)
qed

lemma update_memstats_failure_persists:
  assumes "fst (update_memstats E s) \<noteq> None"
    and "memstats_collector t = memstats_collector (snd (update_memstats E s))"
  shows "fst (update_memstats E t) \<noteq> None"
  using assms
  by (auto simp: update_memstats_def Let_def py_max_def finish_collection_def
      reset_sampling_cnter_def split: option.splits list.splits if_splits)

lemma update_memstats_success_persists:
  assumes "fst (update_memstats E s) = None"
    and "memstats_collector t = memstats_collector (snd (update_memstats E s))"
  shows "fst (update_memstats E t) = None"
  using assms
  by (auto simp: update_memstats_def Let_def py_max_def finish_collection_def
      reset_sampling_cnter_def split: option.splits list.splits if_splits)

lemma post_backward_failed_memstats:
  assumes "fst (update_memstats E s) \<noteq> None"
  shows "snd (post_backward_operations E s) = snd (update_memstats E s)"
  using assms by (cases "update_memstats E s") (auto simp: post_backward_operations_def)

lemma all_sharded_after_reshard:
  assumes "\<forall>t. is_sharded (shard (strategy s) t)" and "shard_param s"
  shows "\<forall>p \<in> set (prepared_params E s). param_is_sharded p"
  using assms
  by (auto simp: prepared_params_def Let_def param_is_sharded_def shard_tensor_of_def)

lemma reshard_of_sharded:
  assumes "\<forall>p \<in> set ps. param_is_sharded p"
  shows "map (\<lambda>p. if \<not> param_is_sharded p then shard_tensor_of strat p else p) ps = ps"
  using assms by (induction ps) simp_all


lemma prepared_params_fixed:
  assumes "require_backward_grad_sync t \<longrightarrow> reducer t = []"
    and "shard_param t \<longrightarrow> (\<forall>p \<in> set (params t). param_is_sharded p)"
  shows "prepared_params E t = params t"
  using assms by (auto simp: prepared_params_def Let_def run_callbacks_def reshard_of_sharded)

lemma sharded_transfer:
  assumes "map param_is_sharded ps = map param_is_sharded qs"
    and "\<forall>q \<in> set qs. param_is_sharded q"
  shows "\<forall>p \<in> set ps. param_is_sharded p"
proof -
  have "param_is_sharded ` set ps = param_is_sharded ` set qs"
    using assms(1) by (metis set_map)
  with assms(2) show ?thesis by (metis (no_types, lifting) image_iff)
qed

text \<open>
  C5: running the end-of-backward reconciliation twice in a row, with nothing in between,
  leaves every parameter's visible gradient after the second run what it was after the
  first. The environment is assumed to behave as Torch and a shard strategy do: moving a
  tensor that is on the host to the host changes nothing, and a tensor the strategy has
  sharded is marked sharded. The statement covers runs that raise: the gradients are
  compared in the states the two runs leave behind.
\<close>

theorem reconciliation_twice:
  assumes idem: "\<forall>t. cpu E (cpu E t) = cpu E t"
    and sh: "\<forall>t. is_sharded (shard (strategy s) t)"
  shows "map grad (params (snd (post_backward_operations E (snd (post_backward_operations E s))))) =
         map grad (params (snd (post_backward_operations E s)))"
proof (cases "fst (update_memstats E s) = None")
  case False
  let ?s1 = "snd (update_memstats E s)"
  have s1: "snd (post_backward_operations E s) = ?s1"
    using False by (rule post_backward_failed_memstats)
  have "fst (update_memstats E ?s1) \<noteq> None"
    using False by (rule update_memstats_failure_persists) simp
  then have "snd (post_backward_operations E ?s1) = snd (update_memstats E ?s1)"
    by (rule post_backward_failed_memstats)
  then show ?thesis
    by (simp add: s1 update_memstats_frame)
next
  case True
  let ?F = "publish E (require_backward_grad_sync s) (reuse_fp16_shard s)"
  let ?pp = "prepared_params E s"
  let ?ps = "snd (for_each ?F ?pp)"
  let ?s1 = "snd (post_backward_operations E s)"
  have s1: "?s1 = (snd (update_memstats E s))
      \<lparr>params := ?ps, reducer := (if require_backward_grad_sync s then [] else reducer s)\<rparr>"
    by (simp add: post_backward_ok [OF True] case_prod_beta)
  have fields: "require_backward_grad_sync ?s1 = require_backward_grad_sync s"
    "reuse_fp16_shard ?s1 = reuse_fp16_shard s" "shard_param ?s1 = shard_param s"
    "strategy ?s1 = strategy s" "params ?s1 = ?ps"
    "reducer ?s1 = (if require_backward_grad_sync s then [] else reducer s)"
    "memstats_collector ?s1 = memstats_collector (snd (update_memstats E s))"
    unfolding s1 by (simp_all add: update_memstats_frame)
  have ok2: "fst (update_memstats E ?s1) = None"
    using True fields(7) by (rule update_memstats_success_persists)
  have quiet: "require_backward_grad_sync ?s1 \<longrightarrow> reducer ?s1 = []"
    by (simp add: fields(1,6))
  have sharded: "shard_param ?s1 \<longrightarrow> (\<forall>p \<in> set (params ?s1). param_is_sharded p)"
  proof
    assume "shard_param ?s1"
    then have sp: "shard_param s" by (simp only: fields(3))
    have "\<forall>p \<in> set ?ps. param_is_sharded p"
      using for_each_is_sharded all_sharded_after_reshard [OF sh sp] by (rule sharded_transfer)
    then show "\<forall>p \<in> set (params ?s1). param_is_sharded p" by (simp only: fields(5))
  qed
  have "prepared_params E ?s1 = params ?s1"
    using quiet sharded by (rule prepared_params_fixed)
  then have pp2: "prepared_params E ?s1 = ?ps" by (simp only: fields(5))
  have "params (snd (post_backward_operations E ?s1)) = snd (for_each ?F ?ps)"
    by (simp only: post_backward_ok_params [OF ok2] pp2 fields(1,2))
  then show ?thesis
    by (simp only: fields(5) for_each_twice_grad [OF idem])
qed

theorem reconciliation_twice_witness:
  "map grad (params (snd (post_backward_operations example_env
      (snd (post_backward_operations example_env reuse_model))))) = [Some [1]] \<and>
   map grad (params (snd (post_backward_operations example_env reuse_model))) = [Some [1]]"
proof -
  have idem: "\<forall>t. cpu example_env (cpu example_env t) = cpu example_env t"
    by (simp add: example_env_def)
  have sh: "\<forall>t. is_sharded (shard (strategy reuse_model) t)"
    by (simp add: reuse_model_def example_defs)
  have first: "map grad (params (snd (post_backward_operations example_env reuse_model))) =
      [Some [1]]"
    by (simp add: reuse_model_def example_defs method_defs Let_def)
  with reconciliation_twice [OF idem sh] show ?thesis by simp
qed

subsection \<open>Exporting the state dictionary\<close>

text \<open>
  C9, as the claim states it, fails: when the wrapped module's \<^verbatim>\<open>state_dict\<close> raises, the
  method is left at line 285, before the re-shard of line 286 and the restore of line 289. The
  parameter that was sharded before the call is unsharded after it, and its data is the
  gathered payload.
\<close>

theorem state_dict_error_leaves_gathered:
  "fst (state_dict failing_export_env example_model) = Inl (RuntimeError ''state_dict hook failed'') \<and>
   param_is_sharded (params example_model ! 0) \<and>
   \<not> param_is_sharded (params (snd (state_dict failing_export_env example_model)) ! 0) \<and>
   data (params example_model ! 0) = [1] \<and>
   data (params (snd (state_dict failing_export_env example_model)) ! 0) = [1, 0]"
  by (simp add: state_dict_def failing_export_env_def example_defs gather_tensor_of_def
      param_is_sharded_def Let_def)

lemma restore_params:
  assumes "\<forall>p \<in> set ps. shard strat (gather strat (sharded_data_tensor (col_attr p))) =
             sharded_data_tensor (col_attr p)"
  shows "map (\<lambda>(p, d). p\<lparr>data := d\<rparr>)
           (zip (map (shard_tensor_of strat)
                  (map (\<lambda>p. p\<lparr>data := payload (sharded_data_tensor (col_attr p))\<rparr>)
                    (map (gather_tensor_of strat) ps)))
                (map data (map (gather_tensor_of strat) ps))) = ps"
  using assms
  by (induction ps) (simp_all add: shard_tensor_of_def gather_tensor_of_def)

text \<open>
  C9, amended: for parameters on which the strategy's \<^verbatim>\<open>shard\<close> undoes its \<^verbatim>\<open>gather\<close>,
  a \<^verbatim>\<open>state_dict\<close> call that returns leaves the orchestrator exactly as it was before the
  call, sharding state and parameter data included. A call in which the wrapped module's
  \<^verbatim>\<open>state_dict\<close> raises passes the error on and leaves every parameter gathered, its data
  set to the gathered payload.
\<close>

theorem state_dict_restores:
  assumes "\<forall>p \<in> set (params s).
             shard (strategy s) (gather (strategy s) (sharded_data_tensor (col_attr p))) =
             sharded_data_tensor (col_attr p)"
  shows "(\<forall>d. module_state_dict E
               (map (\<lambda>p. p\<lparr>data := payload (sharded_data_tensor (col_attr p))\<rparr>)
                  (map (gather_tensor_of (strategy s)) (params s))) = Inr d \<longrightarrow>
            state_dict E s = (Inr d, s)) \<and>
         (\<forall>e. module_state_dict E
               (map (\<lambda>p. p\<lparr>data := payload (sharded_data_tensor (col_attr p))\<rparr>)
                  (map (gather_tensor_of (strategy s)) (params s))) = Inl e \<longrightarrow>
            state_dict E s =
              (Inl e, s\<lparr>params := map (\<lambda>p. p\<lparr>data := payload (sharded_data_tensor (col_attr p))\<rparr>)
                  (map (gather_tensor_of (strategy s)) (params s))\<rparr>))"
  using restore_params [OF assms]
  by (simp add: state_dict_def Let_def)

theorem state_dict_restores_witness:
  "state_dict example_env example_model = (Inr (), example_model) \<and>
   state_dict failing_export_env example_model =
     (Inl (RuntimeError ''state_dict hook failed''),
      example_model\<lparr>params := map (\<lambda>p. p\<lparr>data := payload (sharded_data_tensor (col_attr p))\<rparr>)
         (map (gather_tensor_of (strategy example_model)) (params example_model))\<rparr>)"
proof -
  have "\<forall>p \<in> set (params example_model).
      shard (strategy example_model) (gather (strategy example_model)
        (sharded_data_tensor (col_attr p))) = sharded_data_tensor (col_attr p)"
    by (simp add: example_defs)
  from state_dict_restores [OF this, of example_env]
    state_dict_restores [OF this, of failing_export_env]
  show ?thesis
    by (simp add: example_env_def failing_export_env_def)
qed

subsection \<open>The divide factors\<close>

lemma round_half_even_of_int: "round_half_even (of_int m) = m"
  by (simp add: round_half_even_def)

lemma exponent_of_nat_le:
  assumes "0 < n" and "n < 2 ^ 53"
  shows "exponent (of_nat n) \<le> 52"
proof -
  have "floorlog 2 n \<le> 53"
    using assms(2) by (intro floorlog_leI) simp_all
  then have a: "bitlen (int n) \<le> 53"
    by (simp add: bitlen_le_iff_floorlog)
  have b: "bitlen 1 = 1"
    by code_simp
  have q: "quotient_of (of_nat n :: rat) = (int n, 1)"
    using quotient_of_int [of "int n"] by simp
  have "exponent (of_nat n) \<le> bitlen (int n) - 1"
    unfolding exponent_def q by (simp add: Let_def b)
  with a show ?thesis by linarith
qed

lemma round_binary64_of_nat:
  assumes "n < 2 ^ 53"
  shows "round_binary64 (of_nat n) = Finite (of_nat n)"
proof (cases "n = 0")
  case True
  then show ?thesis by (simp add: round_binary64_def)
next
  case False
  then have pos: "0 < n" by simp
  note small = exponent_of_nat_le [OF pos assms]
  define k where "k = nat (52 - max (exponent (of_nat n)) (- 1022))"
  have e: "max (exponent (of_nat n)) (- 1022) - 52 = - int k"
    using small by (simp add: k_def)
  have u: "power_int (2::rat) (max (exponent (of_nat n)) (- 1022) - 52) = inverse (2 ^ k)"
    by (simp only: e power_int_minus) simp
  have "(of_nat n :: rat) / inverse (2 ^ k) = of_int (int n * 2 ^ k)"
    by (simp add: divide_inverse)
  then have "round_half_even ((of_nat n :: rat) / inverse (2 ^ k)) = int n * 2 ^ k"
    by (simp only: round_half_even_of_int)
  then have y: "of_int (round_half_even ((of_nat n :: rat) / inverse (2 ^ k))) * inverse (2 ^ k) =
      (of_nat n :: rat)"
    by simp
  have "round_binary64 (of_nat n) =
      (if 0 < (of_nat n :: rat) \<and> 1024 \<le> exponent (of_nat n) then PosInf
       else Finite (sgn (of_nat n) * of_nat n))"
    using pos by (simp add: round_binary64_def Let_def u y del: max_less_iff_conj)
  with small pos show ?thesis by simp
qed

lemma round_binary64_exact_quotient:
  assumes "d dvd n" and "0 < d" and "n < 2 ^ 53"
  shows "round_binary64 (of_nat n / of_nat d) = Finite (of_nat n / of_nat d)"
proof -
  from assms(1) obtain k where n: "n = d * k" by (auto simp: dvd_def)
  with assms(2) have q: "(of_nat n :: rat) / of_nat d = of_nat k" by simp
  from n assms(2) have "k \<le> n" by simp
  with assms(3) have "k < 2 ^ 53" by simp
  then show ?thesis by (simp only: q round_binary64_of_nat)
qed

lemma get_gradient_predivide_factor_divides:
  assumes "n < 2 ^ 53"
  shows "\<exists>d. get_gradient_predivide_factor n = Finite (of_nat d) \<and> 0 < d \<and> d dvd n"
proof (cases "filter (\<lambda>d. d dvd n \<and> d * d \<le> n) (rev [1..<Suc n])")
  case Nil
  then have "get_gradient_predivide_factor n = Finite (of_nat 1)"
    by (simp add: get_gradient_predivide_factor_def)
  then show ?thesis by (intro exI [of _ 1]) simp
next
  case (Cons d ds)
  then have "d \<in> set (filter (\<lambda>d. d dvd n \<and> d * d \<le> n) (rev [1..<Suc n]))" by simp
  then have d: "0 < d \<and> d dvd n \<and> d \<le> n" by auto
  with assms have "d < 2 ^ 53" by simp
  then have "round_binary64 (of_nat d) = Finite (of_nat d)"
    by (rule round_binary64_of_nat)
  with Cons have "get_gradient_predivide_factor n = Finite (of_nat d)"
    by (simp add: get_gradient_predivide_factor_def)
  with d show ?thesis by blast
qed

lemma derived_factor_exact:
  assumes "n < 2 ^ 53"
  shows "\<exists>p. get_gradient_predivide_factor n = Finite p \<and> p \<noteq> 0 \<and>
           round_binary64 (of_nat n / p) = Finite (of_nat n / p)"
proof -
  obtain d where d: "get_gradient_predivide_factor n = Finite (of_nat d)" "0 < d" "d dvd n"
    using get_gradient_predivide_factor_divides [OF assms] by blast
  then show ?thesis
    using round_binary64_exact_quotient [OF d(3,2) assms] by simp
qed

text \<open>
  C2, as the claim states it, fails: with eight workers and a supplied predivide factor of
  49.0, the postdivide factor is the float nearest to 8/49, and 49.0 times it is the float
  just below 8, not the worker count.
\<close>

theorem inexact_quotient_breaks_product:
  "divide_factors get_gradient_predivide_factor 8 (Some (Finite 49)) =
     Inr (Finite 49, Finite (5882252574524729 / 36028797018963968)) \<and>
   float_mul (Finite 49) (Finite (5882252574524729 / 36028797018963968)) =
     Finite (9007199254740991 / 1125899906842624) \<and>
   float_mul (Finite 49) (Finite (5882252574524729 / 36028797018963968)) \<noteq> Finite (of_nat 8)"
  by code_simp

text \<open>
  C2, amended: for a worker count \<open>n\<close> below \<open>2 ^ 53\<close> and a predivide factor (supplied, or
  derived by the helper) that is a finite float other than zero and whose quotient
  \<open>n / pre\<close> is itself a float (so that the division neither rounds, nor overflows, nor
  underflows), the construction succeeds and its two factors multiply, in float arithmetic,
  to exactly \<open>n\<close>. The default factor 1.0 and every divisor of \<open>n\<close>, which is what the spec's
  helper derives, are such factors.
\<close>

theorem divide_factors_product:
  assumes "n < 2 ^ 53"
    and "(case supplied of Some f \<Rightarrow> f | None \<Rightarrow> derive n) = Finite p"
    and "p \<noteq> 0"
    and "round_binary64 (of_nat n / p) = Finite (of_nat n / p)"
  shows "divide_factors derive n supplied = Inr (Finite p, Finite (of_nat n / p)) \<and>
         float_mul (Finite p) (Finite (of_nat n / p)) = Finite (of_nat n)"
proof -
  have w: "float_of_nat n = Inr (Finite (of_nat n))"
    by (simp add: float_of_nat_def round_binary64_of_nat [OF assms(1)])
  have "divide_factors derive n supplied = Inr (Finite p, Finite (of_nat n / p))"
    using assms(2,3,4) by (simp add: divide_factors_def Let_def w)
  moreover have "float_mul (Finite p) (Finite (of_nat n / p)) = Finite (of_nat n)"
    using assms(3) by (simp add: round_binary64_of_nat [OF assms(1)])
  ultimately show ?thesis by blast
qed

theorem divide_factors_product_witness:
  "divide_factors get_gradient_predivide_factor 6 None = Inr (Finite 2, Finite 3) \<and>
   float_mul (Finite 2) (Finite 3) = Finite 6 \<and>
   divide_factors get_gradient_predivide_factor 8 (Some (Finite 1)) = Inr (Finite 1, Finite 8) \<and>
   float_mul (Finite 1) (Finite 8) = Finite 8"
proof -
  have g: "get_gradient_predivide_factor 6 = Finite 2"
    by code_simp
  have a: "(6::nat) < 2 ^ 53" "(8::nat) < 2 ^ 53" by simp_all
  have b: "round_binary64 (of_nat 6 / 2) = Finite (of_nat 6 / 2)"
    using round_binary64_of_nat [of 3] by simp
  have c: "round_binary64 (of_nat 8 / 1) = Finite (of_nat 8 / 1)"
    using round_binary64_of_nat [OF a(2)] by simp
  from divide_factors_product [OF a(1), where supplied = None
      and derive = get_gradient_predivide_factor and p = 2]
    divide_factors_product [OF a(2), where supplied = "Some (Finite 1)"
      and derive = get_gradient_predivide_factor and p = 1] g b c
  show ?thesis by simp
qed

end
